theory Spec2Isabelle
  imports Complex_Main "HOL-Library.Monad_Syntax" "HOL-Library.FSet"
begin

section \<open>GLSL values\<close>

text \<open>
  The shaders compute on \<^verbatim>\<open>highp float\<close>. The model computes on \<^typ>\<open>real\<close>: it is
  the arithmetic the shader text denotes, without rounding, infinities or NaN. Decimal
  literals of the shader text are the rationals they spell, so \<^verbatim>\<open>PI\<close> is the
  literal of the \<^verbatim>\<open>#define\<close>, not the number \<open>\<pi>\<close>.

  An operation that has no finite value, or that GLSL leaves undefined, has the value
  \<open>None\<close>: a division by zero, \<^verbatim>\<open>normalize\<close> of the zero vector, \<^verbatim>\<open>pow\<close> with a
  negative base, \<^verbatim>\<open>asin\<close> outside \<open>[-1, 1]\<close>, \<^verbatim>\<open>atan(0, 0)\<close>. Whatever is computed
  from such a value is \<open>None\<close> as well.
\<close>

datatype vec2 = Vec2 (v2x: real) (v2y: real)

datatype vec3 = Vec3 (vx: real) (vy: real) (vz: real)

datatype vec4 = Vec4 (v4r: real) (v4g: real) (v4b: real) (v4a: real)

instantiation vec3 :: "{zero, plus, minus, uminus, times}"
begin

definition zero_vec3 :: vec3 where
  "zero_vec3 = Vec3 0 0 0"

definition plus_vec3 :: "vec3 \<Rightarrow> vec3 \<Rightarrow> vec3" where
  "plus_vec3 a b = Vec3 (vx a + vx b) (vy a + vy b) (vz a + vz b)"

definition minus_vec3 :: "vec3 \<Rightarrow> vec3 \<Rightarrow> vec3" where
  "minus_vec3 a b = Vec3 (vx a - vx b) (vy a - vy b) (vz a - vz b)"

definition uminus_vec3 :: "vec3 \<Rightarrow> vec3" where
  "uminus_vec3 a = Vec3 (- vx a) (- vy a) (- vz a)"

definition times_vec3 :: "vec3 \<Rightarrow> vec3 \<Rightarrow> vec3" where
  "times_vec3 a b = Vec3 (vx a * vx b) (vy a * vy b) (vz a * vz b)"

instance ..

end

text \<open>\<^verbatim>\<open>vec3(c)\<close>, and the promotion of a scalar operand of a vector operation.\<close>

definition splat :: "real \<Rightarrow> vec3" where
  "splat c = Vec3 c c c"

text \<open>\<^verbatim>\<open>v * s\<close> and \<^verbatim>\<open>s * v\<close> for a vector \<open>v\<close> and a float \<open>s\<close>.\<close>

definition scale :: "vec3 \<Rightarrow> real \<Rightarrow> vec3" where
  "scale v s = Vec3 (vx v * s) (vy v * s) (vz v * s)"

definition dot :: "vec3 \<Rightarrow> vec3 \<Rightarrow> real" where
  "dot a b = vx a * vx b + vy a * vy b + vz a * vz b"

definition vlength :: "vec3 \<Rightarrow> real" where
  "vlength v = sqrt (dot v v)"

text \<open>\<^verbatim>\<open>a / b\<close> on floats.\<close>

definition fdiv :: "real \<Rightarrow> real \<Rightarrow> real option" where
  "fdiv a b = (if b = 0 then None else Some (a / b))"

text \<open>\<^verbatim>\<open>v / s\<close> for a vector \<open>v\<close> and a float \<open>s\<close>.\<close>

definition vquot :: "vec3 \<Rightarrow> real \<Rightarrow> vec3" where
  "vquot v s = Vec3 (vx v / s) (vy v / s) (vz v / s)"

definition vdiv :: "vec3 \<Rightarrow> real \<Rightarrow> vec3 option" where
  "vdiv v s = (if s = 0 then None else Some (vquot v s))"

definition normalize_vec :: "vec3 \<Rightarrow> vec3 option" where
  "normalize_vec v = vdiv v (vlength v)"

text \<open>\<^verbatim>\<open>pow(x, y)\<close>: undefined for \<open>x < 0\<close>, and for \<open>x = 0\<close> with \<open>y \<le> 0\<close>.\<close>

definition pow :: "real \<Rightarrow> real \<Rightarrow> real option" where
  "pow x y = (if x < 0 \<or> (x = 0 \<and> y \<le> 0) then None else Some (x powr y))"

text \<open>\<^verbatim>\<open>mix(x, y, a)\<close> is the linear blend \<open>x\<cdot>(1 - a) + y\<cdot>a\<close>.\<close>

definition mix :: "real \<Rightarrow> real \<Rightarrow> real \<Rightarrow> real" where
  "mix x y a = x * (1 - a) + y * a"

definition mix3 :: "vec3 \<Rightarrow> vec3 \<Rightarrow> real \<Rightarrow> vec3" where
  "mix3 a b t = Vec3 (mix (vx a) (vx b) t) (mix (vy a) (vy b) t) (mix (vz a) (vz b) t)"

text \<open>\<^verbatim>\<open>#define PI 3.1415926535897932384626433832795\<close>\<close>

definition PI :: real where
  "PI = 3.1415926535897932384626433832795"

definition vec4_of :: "vec3 \<Rightarrow> real \<Rightarrow> vec4" where
  "vec4_of v a = Vec4 (vx v) (vy v) (vz v) a"

definition rgb :: "vec4 \<Rightarrow> vec3" where
  "rgb c = Vec3 (v4r c) (v4g c) (v4b c)"

text \<open>
  \<^verbatim>\<open>atan(y, x)\<close>: the angle of the point \<open>(x, y)\<close>, in \<open>[-\<pi>, \<pi>]\<close>; undefined when
  \<open>x\<close> and \<open>y\<close> are both zero.
\<close>

definition atan2 :: "real \<Rightarrow> real \<Rightarrow> real option" where
  "atan2 y x =
     (if 0 < x then Some (arctan (y / x))
      else if x < 0 then (if 0 \<le> y then Some (arctan (y / x) + pi) else Some (arctan (y / x) - pi))
      else if 0 < y then Some (pi / 2)
      else if y < 0 then Some (- (pi / 2))
      else None)"

text \<open>\<^verbatim>\<open>asin(x)\<close>: undefined for \<open>\<bar>x\<bar> > 1\<close>.\<close>

definition asin :: "real \<Rightarrow> real option" where
  "asin x = (if \<bar>x\<bar> \<le> 1 then Some (arcsin x) else None)"

text \<open>\<^verbatim>\<open>reflect(I, N) = I - 2 * dot(N, I) * N\<close>\<close>

definition reflect :: "vec3 \<Rightarrow> vec3 \<Rightarrow> vec3" where
  "reflect I N = I - scale N (2 * dot N I)"

section \<open>Functions with the same text in both fragment shaders\<close>

text \<open>
  \<^verbatim>\<open>cartesianToPolar\<close>, \<^verbatim>\<open>sRGBToLinear\<close>, \<^verbatim>\<open>LinearTosRGB\<close>, \<^verbatim>\<open>FresnelSchlick\<close>,
  \<^verbatim>\<open>GeometrySchlickGGX\<close>, \<^verbatim>\<open>GeometrySmith\<close> and \<^verbatim>\<open>DistributionGGX\<close> read the same
  in the base fragment shader and in the image-based-lighting (IBL) one.
\<close>

definition cartesianToPolar :: "vec3 \<Rightarrow> vec2 option" where
  "cartesianToPolar cartesian = do {
     phi \<leftarrow> atan2 (vz cartesian) (vx cartesian);
     theta \<leftarrow> asin (vy cartesian);
     Some (Vec2 phi theta)
   }"

text \<open>
  One colour channel of \<^verbatim>\<open>sRGBToLinear\<close>: both arms of the \<^verbatim>\<open>mix\<close> are computed,
  and \<^verbatim>\<open>lessThanEqual\<close>, converted to a float, selects between them.
\<close>

definition sRGBToLinear_channel :: "real \<Rightarrow> real option" where
  "sRGBToLinear_channel c = do {
     p \<leftarrow> pow (c * 0.9478672986 + 0.0521327014) 2.4;
     Some (mix p (c * 0.0773993808) (if c \<le> 0.04045 then 1 else 0))
   }"

definition sRGBToLinear :: "vec4 \<Rightarrow> vec4 option" where
  "sRGBToLinear value = do {
     r \<leftarrow> sRGBToLinear_channel (v4r value);
     g \<leftarrow> sRGBToLinear_channel (v4g value);
     b \<leftarrow> sRGBToLinear_channel (v4b value);
     Some (Vec4 r g b (v4a value))
   }"

definition LinearTosRGB_channel :: "real \<Rightarrow> real option" where
  "LinearTosRGB_channel c = do {
     p \<leftarrow> pow c 0.41666;
     Some (mix (p * 1.055 - 0.055) (c * 12.92) (if c \<le> 0.0031308 then 1 else 0))
   }"

definition LinearTosRGB :: "vec4 \<Rightarrow> vec4 option" where
  "LinearTosRGB value = do {
     r \<leftarrow> LinearTosRGB_channel (v4r value);
     g \<leftarrow> LinearTosRGB_channel (v4g value);
     b \<leftarrow> LinearTosRGB_channel (v4b value);
     Some (Vec4 r g b (v4a value))
   }"

definition FresnelSchlick :: "real \<Rightarrow> vec3 \<Rightarrow> vec3 option" where
  "FresnelSchlick cosTheta F0 = do {
     p \<leftarrow> pow (1 - cosTheta) 5;
     Some (F0 + scale (splat 1 - F0) p)
   }"

definition GeometrySchlickGGX :: "real \<Rightarrow> real \<Rightarrow> real option" where
  "GeometrySchlickGGX NdotV roughness =
     (let a = roughness + 1;
          k = (a * a) / 8
      in fdiv NdotV (NdotV * (1 - k) + k))"

definition GeometrySmith :: "vec3 \<Rightarrow> vec3 \<Rightarrow> vec3 \<Rightarrow> real \<Rightarrow> real option" where
  "GeometrySmith N V L roughness =
     (let NdotV = max (dot N V) 0;
          NdotL = max (dot N L) 0
      in do {
        ggx1 \<leftarrow> GeometrySchlickGGX NdotV roughness;
        ggx2 \<leftarrow> GeometrySchlickGGX NdotL roughness;
        Some (ggx1 * ggx2)
      })"

definition DistributionGGX :: "vec3 \<Rightarrow> vec3 \<Rightarrow> real \<Rightarrow> real option" where
  "DistributionGGX N H roughness =
     (let a2 = roughness * roughness;
          NdotH = max (dot N H) 0;
          NdotH2 = NdotH * NdotH;
          denom = NdotH2 * (a2 - 1) + 1
      in fdiv a2 (PI * denom * denom))"

text \<open>
  The distribution term as the specification words it: \<open>\<alpha> = roughness\<^sup>2\<close> and
  \<open>D = \<alpha>\<^sup>2 / (PI \<cdot> ((N\<cdot>H)\<^sup>2\<cdot>(\<alpha>\<^sup>2 - 1) + 1)\<^sup>2)\<close>.
\<close>

definition GGX_spec :: "vec3 \<Rightarrow> vec3 \<Rightarrow> real \<Rightarrow> real" where
  "GGX_spec N H roughness =
     (let \<alpha> = roughness\<^sup>2
      in \<alpha>\<^sup>2 / (PI * (((dot N H)\<^sup>2 * (\<alpha>\<^sup>2 - 1) + 1)\<^sup>2)))"

text \<open>
  The local \<^verbatim>\<open>denominator\<close> of the light loop, in both shaders:
  \<^verbatim>\<open>4.0 * max(dot(N, V), 0.0) * max(dot(N, L), 0.0)\<close>.
\<close>

definition specular_denominator :: "vec3 \<Rightarrow> vec3 \<Rightarrow> vec3 \<Rightarrow> real" where
  "specular_denominator N V L = 4 * max (dot N V) 0 * max (dot N L) 0"

text \<open>
  The locals \<^verbatim>\<open>kD\<close> and \<^verbatim>\<open>diffuse\<close> of the light loop, in both shaders:
  \<^verbatim>\<open>kS = F; kD = vec3(1.0) - kS; kD *= 1.0 - metallic; diffuse = (kD * albedo) / PI\<close>.
\<close>

definition diffuse_kD :: "vec3 \<Rightarrow> real \<Rightarrow> vec3" where
  "diffuse_kD F metallic = scale (splat 1 - F) (1 - metallic)"

definition lambertian_diffuse :: "vec3 \<Rightarrow> real \<Rightarrow> vec3 \<Rightarrow> vec3" where
  "lambertian_diffuse F metallic albedo = vquot (diffuse_kD F metallic * albedo) PI"

text \<open>The locals of one iteration of the light loop, in both shaders.\<close>

record LightTerms =
  t_L :: vec3
  t_H :: vec3
  t_radiance :: vec3
  t_D :: real
  t_F :: vec3
  t_G :: real
  t_specular :: vec3
  t_kD :: vec3
  t_diffuse :: vec3
  t_NdotL :: real

text \<open>\<^verbatim>\<open>(diffuse + specular) * radiance * NdotL\<close>, what an iteration adds to \<^verbatim>\<open>irradiance\<close>.\<close>

definition contribution :: "LightTerms \<Rightarrow> vec3" where
  "contribution t = scale ((t_diffuse t + t_specular t) * t_radiance t) (t_NdotL t)"

section \<open>The base fragment shader\<close>


definition base_LIGHT_TYPE_DIRECTIONAL :: int where
  "base_LIGHT_TYPE_DIRECTIONAL = 1"

record Attributes =
  a_position :: vec3
  a_albedo :: vec3
  a_metallic :: real
  a_roughness :: real

record Light =
  light_type :: int
  light_position :: vec3
  light_color :: vec3
  light_intensity :: real

definition getLightDirection :: "Attributes \<Rightarrow> vec3 \<Rightarrow> Light \<Rightarrow> vec3 option" where
  "getLightDirection uAttributes vWsPosition light =
     (if light_type light = base_LIGHT_TYPE_DIRECTIONAL then normalize_vec (light_position light)
      else (let light_pos_local = light_position light + a_position uAttributes
            in normalize_vec (light_pos_local - vWsPosition)))"

definition getLightColor :: "Light \<Rightarrow> vec3 option" where
  "getLightColor light = do {
     c \<leftarrow> sRGBToLinear (vec4_of (light_color light) 1);
     Some (scale (rgb c) (light_intensity light))
   }"

text \<open>
  The body of the loop of \<^verbatim>\<open>main\<close>, for one light, from the values of \<^verbatim>\<open>N\<close>, \<^verbatim>\<open>V\<close>,
  \<^verbatim>\<open>albedo\<close> and \<^verbatim>\<open>F0\<close>. The specular term divides by \<^verbatim>\<open>denominator\<close> as it is.
\<close>

definition base_light_terms ::
  "Attributes \<Rightarrow> vec3 \<Rightarrow> vec3 \<Rightarrow> vec3 \<Rightarrow> vec3 \<Rightarrow> vec3 \<Rightarrow> Light \<Rightarrow> LightTerms option" where
  "base_light_terms uAttributes vWsPosition N V albedo F0 light = do {
     L \<leftarrow> getLightDirection uAttributes vWsPosition light;
     H \<leftarrow> normalize_vec (V + L);
     radiance \<leftarrow> getLightColor light;
     D \<leftarrow> DistributionGGX N H (a_roughness uAttributes);
     F \<leftarrow> FresnelSchlick (max (dot H V) 0) F0;
     G \<leftarrow> GeometrySmith N V L (a_roughness uAttributes);
     specular \<leftarrow> vdiv (scale F (D * G)) (specular_denominator N V L);
     Some \<lparr> t_L = L, t_H = H, t_radiance = radiance, t_D = D, t_F = F, t_G = G,
            t_specular = specular,
            t_kD = diffuse_kD F (a_metallic uAttributes),
            t_diffuse = lambertian_diffuse F (a_metallic uAttributes) albedo,
            t_NdotL = max (dot N L) 0 \<rparr>
   }"

text \<open>
  \<^verbatim>\<open>for (int i = 0; i < LIGHT_COUNT; ++i)\<close> over \<^verbatim>\<open>uniform Light uLights[LIGHT_COUNT]\<close>.
  The array is a list; a read at an index that the list does not have is undefined.
  \<^verbatim>\<open>N\<close>, \<^verbatim>\<open>V\<close>, \<^verbatim>\<open>albedo\<close> and \<^verbatim>\<open>F0\<close> are computed before the loop and read in
  its body only: the loop receives them with or without a value, and an iteration needs
  their values.
\<close>

function base_light_loop ::
  "Attributes \<Rightarrow> vec3 \<Rightarrow> vec3 option \<Rightarrow> vec3 option \<Rightarrow> vec3 option \<Rightarrow> vec3 option \<Rightarrow> Light list
     \<Rightarrow> nat \<Rightarrow> nat \<Rightarrow> vec3 \<Rightarrow> vec3 option" where
  "base_light_loop uAttributes vWsPosition N V albedo F0 uLights LIGHT_COUNT i irradiance =
     (if i < LIGHT_COUNT then
        (if i < length uLights then do {
           N' \<leftarrow> N;
           V' \<leftarrow> V;
           albedo' \<leftarrow> albedo;
           F0' \<leftarrow> F0;
           t \<leftarrow> base_light_terms uAttributes vWsPosition N' V' albedo' F0' (uLights ! i);
           base_light_loop uAttributes vWsPosition N V albedo F0 uLights LIGHT_COUNT (Suc i)
             (irradiance + contribution t)
         } else None)
      else Some irradiance)"
  by pat_completeness auto
termination
  by (relation "measure (\<lambda>(uAttributes, vWsPosition, N, V, albedo, F0, uLights, LIGHT_COUNT, i, irradiance).
        LIGHT_COUNT - i)") auto

definition main_frag_base ::
  "Attributes \<Rightarrow> Light list \<Rightarrow> nat \<Rightarrow> vec3 \<Rightarrow> vec3 \<Rightarrow> vec3 \<Rightarrow> vec4 option" where
  "main_frag_base uAttributes uLights LIGHT_COUNT vWsPosition vWsNormal vWsViewPosition =
     (let N = normalize_vec vWsNormal;
          V = normalize_vec (vWsViewPosition - vWsPosition);
          albedo = map_option rgb (sRGBToLinear (vec4_of (a_albedo uAttributes) 1));
          F0 = map_option (\<lambda>albedo. mix3 (splat 0.04) albedo (a_metallic uAttributes)) albedo
      in do {
        irradiance \<leftarrow> base_light_loop uAttributes vWsPosition N V albedo F0 uLights LIGHT_COUNT 0
          (splat 0);
        Some (vec4_of irradiance 1)
      })"

section \<open>The IBL fragment shader\<close>

text \<open>The values the shader text gives them; the engine overwrites these defines.\<close>

definition ibl_LIGHT_TYPE_DIRECTIONAL :: int where
  "ibl_LIGHT_TYPE_DIRECTIONAL = 0"

definition ibl_LIGHT_TYPE_POINT :: int where
  "ibl_LIGHT_TYPE_POINT = 1"

record Material =
  m_albedo :: vec3
  m_metallic :: real
  m_roughness :: real

record LightProperties =
  lp_type :: int
  lp_position :: vec3
  lp_direction :: vec3
  lp_color :: vec3
  lp_intensity :: real

definition get_light_dir :: "LightProperties \<Rightarrow> vec3 \<Rightarrow> vec3 option" where
  "get_light_dir light wsPosition =
     (if lp_type light = ibl_LIGHT_TYPE_DIRECTIONAL then normalize_vec (lp_direction light)
      else if lp_type light = ibl_LIGHT_TYPE_POINT then normalize_vec (lp_position light - wsPosition)
      else Some (splat 0))"

definition get_light_color :: "LightProperties \<Rightarrow> vec3 \<Rightarrow> vec3" where
  "get_light_color light wsPosition = scale (lp_color light) (lp_intensity light)"

definition RGBMToRGB :: "vec4 \<Rightarrow> real \<Rightarrow> vec3" where
  "RGBMToRGB rgbm rangeMultiplier = scale (scale (rgb rgbm) (v4a rgbm)) rangeMultiplier"

text \<open>
  The body of the loop of \<^verbatim>\<open>main\<close>, for one light. The specular term divides by
  \<^verbatim>\<open>max(denominator, 0.001)\<close>.
\<close>

definition ibl_light_terms ::
  "Material \<Rightarrow> vec3 \<Rightarrow> vec3 \<Rightarrow> vec3 \<Rightarrow> vec3 \<Rightarrow> vec3 \<Rightarrow> LightProperties \<Rightarrow> LightTerms option" where
  "ibl_light_terms m vWsPosition N V albedo f0 light = do {
     L \<leftarrow> get_light_dir light vWsPosition;
     H \<leftarrow> normalize_vec (V + L);
     D \<leftarrow> DistributionGGX N H (m_roughness m);
     F \<leftarrow> FresnelSchlick (max (dot H V) 0) f0;
     G \<leftarrow> GeometrySmith N V L (m_roughness m);
     specular \<leftarrow> vdiv (scale F (D * G)) (max (specular_denominator N V L) 0.001);
     Some \<lparr> t_L = L, t_H = H, t_radiance = get_light_color light vWsPosition,
            t_D = D, t_F = F, t_G = G,
            t_specular = specular,
            t_kD = diffuse_kD F (m_metallic m),
            t_diffuse = lambertian_diffuse F (m_metallic m) albedo,
            t_NdotL = max (dot N L) 0 \<rparr>
   }"

text \<open>The loop of \<^verbatim>\<open>main\<close>, as in the base shader.\<close>

function ibl_light_loop ::
  "Material \<Rightarrow> vec3 \<Rightarrow> vec3 option \<Rightarrow> vec3 option \<Rightarrow> vec3 option \<Rightarrow> vec3 option
     \<Rightarrow> LightProperties list \<Rightarrow> nat \<Rightarrow> nat \<Rightarrow> vec3 \<Rightarrow> vec3 option" where
  "ibl_light_loop m vWsPosition N V albedo f0 uLights LIGHT_COUNT i irradiance =
     (if i < LIGHT_COUNT then
        (if i < length uLights then do {
           N' \<leftarrow> N;
           V' \<leftarrow> V;
           albedo' \<leftarrow> albedo;
           f0' \<leftarrow> f0;
           t \<leftarrow> ibl_light_terms m vWsPosition N' V' albedo' f0' (uLights ! i);
           ibl_light_loop m vWsPosition N V albedo f0 uLights LIGHT_COUNT (Suc i)
             (irradiance + contribution t)
         } else None)
      else Some irradiance)"
  by pat_completeness auto
termination
  by (relation "measure (\<lambda>(m, vWsPosition, N, V, albedo, f0, uLights, LIGHT_COUNT, i, irradiance).
        LIGHT_COUNT - i)") auto

text \<open>
  The equirectangular coordinates at which \<^verbatim>\<open>main\<close> samples the diffuse environment:
  \<^verbatim>\<open>cartesianToPolar(N) / vec2(PI, PI / 2.0) + vec2(0.5, 0.5)\<close>.
\<close>

definition diffuseUV :: "vec3 \<Rightarrow> vec2 option" where
  "diffuseUV N = do {
     polar \<leftarrow> cartesianToPolar N;
     Some (Vec2 (v2x polar / PI + 0.5) (v2y polar / (PI / 2) + 0.5))
   }"

text \<open>
  \<^verbatim>\<open>main\<close>. The sampler \<^verbatim>\<open>uEnvironment.diffuse\<close> is the function from texture
  coordinates to the texel that \<^verbatim>\<open>texture\<close> returns. The reflection vector \<^verbatim>\<open>R\<close> is
  computed and not used. The environment term reads \<^verbatim>\<open>N\<close> and \<^verbatim>\<open>albedo\<close>.
\<close>

definition main_frag_ibl ::
  "Material \<Rightarrow> LightProperties list \<Rightarrow> nat \<Rightarrow> (vec2 \<Rightarrow> vec4) \<Rightarrow> vec3 \<Rightarrow> vec3 \<Rightarrow> vec3
     \<Rightarrow> vec4 option" where
  "main_frag_ibl m uLights LIGHT_COUNT uEnvironment_diffuse vWsNormal vWsViewDir vWsPosition =
     (let N = normalize_vec vWsNormal;
          V = normalize_vec vWsViewDir;
          R = do { V' \<leftarrow> V; N' \<leftarrow> N; Some (reflect (- V') N') };
          albedo = map_option rgb (sRGBToLinear (vec4_of (m_albedo m) 1));
          f0 = map_option (\<lambda>albedo. mix3 (splat 0.04) albedo (m_metallic m)) albedo
      in do {
        irradiance \<leftarrow> ibl_light_loop m vWsPosition N V albedo f0 uLights LIGHT_COUNT 0 (splat 0);
        N' \<leftarrow> N;
        uv \<leftarrow> diffuseUV N';
        albedo' \<leftarrow> albedo;
        LinearTosRGB (vec4_of
          (splat 0 + irradiance + RGBMToRGB (uEnvironment_diffuse uv) 6 * albedo') 1)
      })"

section \<open>The base vertex shader\<close>

datatype mat4 = Mat4 (col0: vec4) (col1: vec4) (col2: vec4) (col3: vec4)





section \<open>The transfer function and the radiance as the specification words them\<close>



section \<open>The host of the IBL variant: the uniforms of a frame\<close>





text \<open>The values of the uniform map, \<^verbatim>\<open>UniformType | Texture\<close>; a texture by its number.\<close>

datatype UniformValue = UNumber real | UVec3 vec3 | UMat4 mat4 | UTexture nat



text \<open>The decimal digits of an index, as the template literal \<^verbatim>\<open>${i}\<close> writes it.\<close>

definition digit :: "nat \<Rightarrow> char" where
  "digit d = ''0123456789'' ! d"

fun decimal :: "nat \<Rightarrow> string" where
  "decimal i = (if i div 10 = 0 then [digit i] else decimal (i div 10) @ [digit (i mod 10)])"

declare decimal.simps [simp del]





section \<open>The host of the base variant: the uniforms of a frame\<close>






section \<open>The shader program cache\<close>

text \<open>
  Modelled from the spec: \<^verbatim>\<open>getOrCompile(vertexSource, fragmentSource, defines)\<close> of the
  shader program cache. The GL context that holds it is imported by the sources and is
  not among them. A program is keyed by its two sources and its define set; a call whose
  key is cached returns the cached handle; any other call compiles once, fails with the
  compiler's or the linker's error, or stores and returns a new handle. The GPU compiler
  is a parameter: from the sources and the defines to the error it reports, if any.
\<close>

datatype Stage = VertexStage | FragmentStage

datatype ProgramError = CompileError Stage string | LinkError string

type_synonym DefineSet = "(string \<times> int) fset"

type_synonym ProgramKey = "string \<times> string \<times> DefineSet"

type_synonym ProgramHandle = nat

record ProgramCache =
  programs :: "ProgramKey \<rightharpoonup> ProgramHandle"
  next_handle :: ProgramHandle
  compilations :: nat

definition empty_cache :: ProgramCache where
  "empty_cache = \<lparr> programs = Map.empty, next_handle = 0, compilations = 0 \<rparr>"

definition getOrCompile ::
  "(string \<Rightarrow> string \<Rightarrow> DefineSet \<Rightarrow> ProgramError option) \<Rightarrow> ProgramCache \<Rightarrow> string \<Rightarrow> string
     \<Rightarrow> DefineSet \<Rightarrow> (ProgramError + ProgramHandle) \<times> ProgramCache" where
  "getOrCompile gpu cache vertexSource fragmentSource defines =
     (case programs cache (vertexSource, fragmentSource, defines) of
        Some handle \<Rightarrow> (Inr handle, cache)
      | None \<Rightarrow>
          (case gpu vertexSource fragmentSource defines of
             Some err \<Rightarrow> (Inl err, cache\<lparr>compilations := Suc (compilations cache)\<rparr>)
           | None \<Rightarrow>
               (Inr (next_handle cache),
                cache\<lparr>programs := (programs cache)
                          ((vertexSource, fragmentSource, defines) \<mapsto> next_handle cache),
                      next_handle := Suc (next_handle cache),
                      compilations := Suc (compilations cache)\<rparr>)))"

text \<open>The cache after a sequence of calls, whatever each of them returns.\<close>

fun calls ::
  "(string \<Rightarrow> string \<Rightarrow> DefineSet \<Rightarrow> ProgramError option) \<Rightarrow> ProgramCache \<Rightarrow> ProgramKey list
     \<Rightarrow> ProgramCache" where
  "calls gpu cache [] = cache"
| "calls gpu cache ((vertexSource, fragmentSource, defines) # keys) =
     calls gpu (snd (getOrCompile gpu cache vertexSource fragmentSource defines)) keys"

text \<open>The caches that calls of \<^verbatim>\<open>getOrCompile\<close> build from the empty one.\<close>

inductive built ::
  "(string \<Rightarrow> string \<Rightarrow> DefineSet \<Rightarrow> ProgramError option) \<Rightarrow> ProgramCache \<Rightarrow> bool"
  for gpu where
  built_empty: "built gpu empty_cache"
| built_call:
    "built gpu cache \<Longrightarrow> getOrCompile gpu cache vertexSource fragmentSource defines = (r, cache')
       \<Longrightarrow> built gpu cache'"

text \<open>
  What holds of them: every stored handle is below the next one, and no two keys share a
  handle.
\<close>

definition cache_inv :: "ProgramCache \<Rightarrow> bool" where
  "cache_inv cache =
     ((\<forall>k h. programs cache k = Some h \<longrightarrow> h < next_handle cache)
      \<and> (\<forall>k k' h. programs cache k = Some h \<and> programs cache k' = Some h \<longrightarrow> k = k'))"

section \<open>Properties\<close>

lemma PI_pos: "0 < PI"
  by (simp add: PI_def)

lemmas vec_defs = splat_def scale_def dot_def vlength_def vquot_def vdiv_def normalize_vec_def
  plus_vec3_def minus_vec3_def times_vec3_def uminus_vec3_def zero_vec3_def vec4_of_def rgb_def
  mix_def mix3_def fdiv_def pow_def

lemmas lighting_defs = DistributionGGX_def FresnelSchlick_def GeometrySmith_def
  GeometrySchlickGGX_def specular_denominator_def sRGBToLinear_def sRGBToLinear_channel_def
  diffuse_kD_def lambertian_diffuse_def Let_def

text \<open>
  C1, as the code has it: the distribution term is
  \<open>a2 / (PI \<cdot> (m\<^sup>2\<cdot>(a2 - 1) + 1)\<^sup>2)\<close> with \<open>a2 = roughness\<^sup>2\<close> (so \<open>\<alpha> = roughness\<close>,
  and both the numerator and the \<open>\<alpha>\<^sup>2\<close> of the denominator are \<open>roughness\<^sup>2\<close>) and
  \<open>m = max (N\<cdot>H) 0\<close>; it has no value when that denominator is zero.
\<close>

theorem DistributionGGX_formula:
  "DistributionGGX N H roughness =
     fdiv (roughness\<^sup>2) (PI * ((max (dot N H) 0)\<^sup>2 * (roughness\<^sup>2 - 1) + 1)\<^sup>2)"
  by (simp add: DistributionGGX_def Let_def power2_eq_square mult.assoc)

text \<open>
  C1, as the specification states it, fails: at \<open>N = H = (0, 0, 1)\<close> and roughness
  \<open>1/2\<close> the shader computes \<open>4 / PI\<close>, and the formula with \<open>\<alpha> = roughness\<^sup>2\<close> gives
  \<open>16 / PI\<close>.
\<close>

theorem DistributionGGX_alpha_counterexample:
  "DistributionGGX (Vec3 0 0 1) (Vec3 0 0 1) (1 / 2) = Some (4 / PI)
   \<and> GGX_spec (Vec3 0 0 1) (Vec3 0 0 1) (1 / 2) = 16 / PI
   \<and> DistributionGGX (Vec3 0 0 1) (Vec3 0 0 1) (1 / 2)
       \<noteq> Some (GGX_spec (Vec3 0 0 1) (Vec3 0 0 1) (1 / 2))"
proof -
  have d: "DistributionGGX (Vec3 0 0 1) (Vec3 0 0 1) (1 / 2) = Some (4 / PI)"
    using PI_pos by (simp add: DistributionGGX_def Let_def dot_def fdiv_def)
  have s: "GGX_spec (Vec3 0 0 1) (Vec3 0 0 1) (1 / 2) = 16 / PI"
    using PI_pos by (simp add: GGX_spec_def Let_def dot_def power2_eq_square)
  have "(4::real) / PI \<noteq> 16 / PI"
    using PI_pos by (simp add: divide_simps)
  with d s show ?thesis by simp
qed


subsection \<open>The specular division\<close>

lemma sqrt_36_25: "sqrt (36 / 25) = 6 / 5"
  by (rule real_sqrt_unique) (simp_all add: power2_eq_square)

text \<open>
  In the IBL shader the divisor of the specular term is \<^verbatim>\<open>max(denominator, 0.001)\<close>: it
  is at least \<open>0.001\<close>, and the division has a value for all \<open>N\<close>, \<open>V\<close>, \<open>L\<close>.
\<close>

lemma ibl_specular_divisor_bounded:
  "0.001 \<le> max (specular_denominator N V L) 0.001
   \<and> vdiv numerator (max (specular_denominator N V L) 0.001)
       = Some (vquot numerator (max (specular_denominator N V L) 0.001))"
  by (simp add: vdiv_def max_def)

text \<open>
  In the base shader the divisor is \<^verbatim>\<open>denominator\<close> itself: for a surface seen from
  behind or edge-on (\<open>N\<cdot>V \<le> 0\<close>), and for a light behind the surface (\<open>N\<cdot>L \<le> 0\<close>), the
  iteration has no value, whatever the light and the material.
\<close>

lemma base_specular_divisor_zero:
  assumes "dot N V \<le> 0 \<or> (\<forall>L. getLightDirection uAttributes vWsPosition light = Some L \<longrightarrow> dot N L \<le> 0)"
  shows "base_light_terms uAttributes vWsPosition N V albedo F0 light = None"
proof -
  have "vdiv numerator (specular_denominator N V L) = None"
    if "getLightDirection uAttributes vWsPosition light = Some L" for numerator L
  proof -
    from assms that have "dot N V \<le> 0 \<or> dot N L \<le> 0" by blast
    then have "specular_denominator N V L = 0"
      by (auto simp: specular_denominator_def max_def)
    then show ?thesis by (simp add: vdiv_def)
  qed
  then show ?thesis
    by (auto simp: base_light_terms_def bind_eq_None_conv split: bind_splits)
qed

text \<open>
  C3 at a light behind the surface, in the base shader. With \<open>N = V = (0, 0, 1)\<close> and a
  point light in the direction \<open>L = (24/25, 0, -7/25)\<close>, the direction, the halfway vector
  and the terms \<open>D\<close> and \<open>G\<close> have values, \<open>denominator\<close> is \<open>0\<close>, and the specular
  term \<^verbatim>\<open>numerator / denominator\<close> has none: the division is by zero, where the claim
  has a divisor of at least \<open>0.001\<close>. The colour of the fragment has no value either.
\<close>

theorem base_specular_division_by_zero:
  "getLightDirection \<lparr>a_position = Vec3 0 0 0, a_albedo = Vec3 1 1 1, a_metallic = 0, a_roughness = 1\<rparr>
      (Vec3 0 0 0)
      \<lparr>light_type = 0, light_position = Vec3 (24 / 25) 0 (- (7 / 25)), light_color = Vec3 1 1 1,
        light_intensity = 1\<rparr> = Some (Vec3 (24 / 25) 0 (- (7 / 25)))
   \<and> normalize_vec (Vec3 0 0 1 + Vec3 (24 / 25) 0 (- (7 / 25))) = Some (Vec3 (4 / 5) 0 (3 / 5))
   \<and> DistributionGGX (Vec3 0 0 1) (Vec3 (4 / 5) 0 (3 / 5)) 1 = Some (1 / PI)
   \<and> GeometrySmith (Vec3 0 0 1) (Vec3 0 0 1) (Vec3 (24 / 25) 0 (- (7 / 25))) 1 = Some 0
   \<and> specular_denominator (Vec3 0 0 1) (Vec3 0 0 1) (Vec3 (24 / 25) 0 (- (7 / 25))) = 0
   \<and> base_light_terms \<lparr>a_position = Vec3 0 0 0, a_albedo = Vec3 1 1 1, a_metallic = 0, a_roughness = 1\<rparr>
      (Vec3 0 0 0) (Vec3 0 0 1) (Vec3 0 0 1) (Vec3 1 1 1) (splat 0.04)
      \<lparr>light_type = 0, light_position = Vec3 (24 / 25) 0 (- (7 / 25)), light_color = Vec3 1 1 1,
        light_intensity = 1\<rparr> = None
   \<and> main_frag_base \<lparr>a_position = Vec3 0 0 0, a_albedo = Vec3 1 1 1, a_metallic = 0, a_roughness = 1\<rparr>
      [\<lparr>light_type = 0, light_position = Vec3 (24 / 25) 0 (- (7 / 25)), light_color = Vec3 1 1 1,
         light_intensity = 1\<rparr>] 1 (Vec3 0 0 0) (Vec3 0 0 1) (Vec3 0 0 1) = None"
  using PI_pos
  by (simp add: main_frag_base_def base_light_terms_def getLightDirection_def base_LIGHT_TYPE_DIRECTIONAL_def vec_defs
    getLightColor_def lighting_defs sqrt_36_25)

subsection \<open>The equirectangular coordinates\<close>

text \<open>
  C4 at the normal \<open>(-1, 0, 0)\<close>: \<^verbatim>\<open>atan\<close> gives \<open>\<pi>\<close>, and the shader's remap
  \<open>\<phi> / PI + 0.5\<close> gives a first coordinate of about \<open>1.5\<close>, outside \<open>[0, 1]\<close>. The
  comments of the shader ask for a remap of \<open>[-PI, PI]\<close> to \<open>[0, 1]\<close>.
\<close>

theorem diffuseUV_out_of_range:
  "diffuseUV (Vec3 (- 1) 0 0) = Some (Vec2 (pi / PI + 1 / 2) (1 / 2)) \<and> 1 < pi / PI + 1 / 2"
proof -
  have "PI / 2 < 2" by (simp add: PI_def)
  with pi_ge_two have "PI / 2 < pi" by linarith
  with PI_pos have "1 < pi / PI + 1 / 2" by (simp add: field_simps)
  moreover have "diffuseUV (Vec3 (- 1) 0 0) = Some (Vec2 (pi / PI + 1 / 2) (1 / 2))"
    by (simp add: diffuseUV_def cartesianToPolar_def atan2_def asin_def)
  ultimately show ?thesis by simp
qed

subsection \<open>The diffuse term of a metal\<close>

text \<open>
  C8: at \<open>metallic = 1\<close> the Lambertian diffuse term is exactly zero for every Fresnel
  term and albedo; so in both shaders, whenever the terms of a light have values and
  \<open>metallic = 1\<close>, the diffuse term of that light is exactly zero, whatever the albedo, the
  roughness, the light and the geometry.
\<close>

theorem metallic_one_diffuse_zero:
  "lambertian_diffuse F 1 albedo'' = Vec3 0 0 0
   \<and> (base_light_terms uAttributes vWsPosition N V albedo F0 light = Some t \<and> a_metallic uAttributes = 1
      \<longrightarrow> t_diffuse t = Vec3 0 0 0)
   \<and> (ibl_light_terms m vWsPosition' N' V' albedo' f0 light' = Some t' \<and> m_metallic m = 1
      \<longrightarrow> t_diffuse t' = Vec3 0 0 0)"
  by (auto simp: base_light_terms_def ibl_light_terms_def lambertian_diffuse_def diffuse_kD_def
      vquot_def scale_def times_vec3_def split: bind_splits)

theorem metallic_one_diffuse_zero_witness:
  "(\<exists>t. base_light_terms
           \<lparr>a_position = Vec3 0 0 0, a_albedo = Vec3 1 1 1, a_metallic = 1, a_roughness = 1\<rparr>
           (Vec3 0 0 0) (Vec3 0 0 1) (Vec3 0 0 1) (Vec3 1 1 1) (Vec3 1 1 1)
           \<lparr>light_type = 1, light_position = Vec3 0 0 1, light_color = Vec3 1 1 1,
             light_intensity = 1\<rparr> = Some t
         \<and> t_diffuse t = Vec3 0 0 0)
   \<and> (\<exists>t'. ibl_light_terms \<lparr>m_albedo = Vec3 1 1 1, m_metallic = 1, m_roughness = 1\<rparr>
           (Vec3 0 0 0) (Vec3 0 0 1) (Vec3 0 0 1) (Vec3 1 1 1) (Vec3 1 1 1)
           \<lparr>lp_type = 0, lp_position = Vec3 0 0 0, lp_direction = Vec3 0 0 1,
             lp_color = Vec3 1 1 1, lp_intensity = 1\<rparr> = Some t'
         \<and> t_diffuse t' = Vec3 0 0 0)"
proof -
  let ?U = "\<lparr>a_position = Vec3 0 0 0, a_albedo = Vec3 1 1 1, a_metallic = 1, a_roughness = 1\<rparr>"
  let ?L = "\<lparr>light_type = 1, light_position = Vec3 0 0 1, light_color = Vec3 1 1 1,
             light_intensity = 1\<rparr>"
  let ?M = "\<lparr>m_albedo = Vec3 1 1 1, m_metallic = 1, m_roughness = 1\<rparr>"
  let ?P = "\<lparr>lp_type = 0, lp_position = Vec3 0 0 0, lp_direction = Vec3 0 0 1,
             lp_color = Vec3 1 1 1, lp_intensity = 1\<rparr>"
  have "\<exists>t. base_light_terms ?U (Vec3 0 0 0) (Vec3 0 0 1) (Vec3 0 0 1) (Vec3 1 1 1) (Vec3 1 1 1) ?L
          = Some t"
    using PI_pos
    by (simp add: base_light_terms_def getLightDirection_def base_LIGHT_TYPE_DIRECTIONAL_def vec_defs
      getLightColor_def lighting_defs)
  then obtain t where
    t: "base_light_terms ?U (Vec3 0 0 0) (Vec3 0 0 1) (Vec3 0 0 1) (Vec3 1 1 1) (Vec3 1 1 1) ?L = Some t"
    by blast
  have "\<exists>t. ibl_light_terms ?M (Vec3 0 0 0) (Vec3 0 0 1) (Vec3 0 0 1) (Vec3 1 1 1) (Vec3 1 1 1) ?P
          = Some t"
    using PI_pos
    by (simp add: ibl_light_terms_def get_light_dir_def ibl_LIGHT_TYPE_DIRECTIONAL_def vec_defs
      get_light_color_def lighting_defs)
  then obtain t' where
    t': "ibl_light_terms ?M (Vec3 0 0 0) (Vec3 0 0 1) (Vec3 0 0 1) (Vec3 1 1 1) (Vec3 1 1 1) ?P = Some t'"
    by blast
  from metallic_one_diffuse_zero [of _ _ ?U "Vec3 0 0 0" "Vec3 0 0 1" "Vec3 0 0 1" "Vec3 1 1 1" "Vec3 1 1 1"
      ?L t ?M "Vec3 0 0 0" "Vec3 0 0 1" "Vec3 0 0 1" "Vec3 1 1 1" "Vec3 1 1 1" ?P t'] t t'
  show ?thesis by simp
qed

subsection \<open>No light\<close>

text \<open>
  C9: with \<open>LIGHT_COUNT = 0\<close> the light loop of the base shader returns the irradiance
  \<open>(0, 0, 0)\<close> whatever the material, the geometry and the content of \<^verbatim>\<open>uLights\<close>: the
  body is not entered and no slot is read, and \<^verbatim>\<open>N\<close>, \<^verbatim>\<open>V\<close>, \<^verbatim>\<open>albedo\<close> and \<^verbatim>\<open>F0\<close> are
  not read either, with or without a value. The colour that \<^verbatim>\<open>main\<close> writes is then
  \<open>(0, 0, 0, 1)\<close>, for every input.
\<close>

theorem empty_light_set_zero_irradiance:
  "base_light_loop uAttributes vWsPosition N V albedo F0 uLights 0 0 (splat 0) = Some (Vec3 0 0 0)
   \<and> main_frag_base uAttributes uLights 0 vWsPosition vWsNormal vWsViewPosition
       = Some (Vec4 0 0 0 1)"
  by (simp add: main_frag_base_def Let_def splat_def vec4_of_def)

subsection \<open>The normal of the base variant\<close>





subsection \<open>The radiance of a light\<close>

lemma sRGBToLinear_channel_piecewise:
  "0 \<le> c \<Longrightarrow> sRGBToLinear_channel c =
     Some (if c \<le> 0.04045 then c * 0.0773993808 else (c * 0.9478672986 + 0.0521327014) powr 2.4)"
  by (simp add: sRGBToLinear_channel_def pow_def mix_def)





subsection \<open>A light of an unknown class\<close>


text \<open>The keys of the uniform map: two type keys are equal only at the same index.\<close>

lemma digit_inj: "a < 10 \<Longrightarrow> b < 10 \<Longrightarrow> digit a = digit b \<Longrightarrow> a = b"
proof -
  assume h: "a < 10" "b < 10" "digit a = digit b"
  have "distinct ''0123456789''" by simp
  with h show ?thesis by (simp add: digit_def nth_eq_iff_index_eq)
qed

lemma decimal_not_Nil: "decimal i \<noteq> []"
  by (subst decimal.simps) simp

lemma decimal_small: "i div 10 = 0 \<Longrightarrow> decimal i = [digit i]"
  by (subst decimal.simps) simp

lemma decimal_big: "i div 10 \<noteq> 0 \<Longrightarrow> decimal i = decimal (i div 10) @ [digit (i mod 10)]"
  by (subst decimal.simps) simp

lemma decimal_inj: "decimal i = decimal j \<Longrightarrow> i = j"
proof (induction i arbitrary: j rule: decimal.induct)
  case (1 i)
  show ?case
  proof (cases "i div 10 = 0")
    case True
    note di = decimal_small [OF True]
    show ?thesis
    proof (cases "j div 10 = 0")
      case jsmall: True
      from di decimal_small [OF jsmall] "1.prems" have "digit i = digit j" by simp
      moreover have "i < 10" "j < 10" using True jsmall by (simp_all add: div_eq_0_iff)
      ultimately show ?thesis by (simp add: digit_inj)
    next
      case False
      from di decimal_big [OF False] "1.prems"
      have "[digit i] = decimal (j div 10) @ [digit (j mod 10)]" by simp
      then have "decimal (j div 10) = []" by simp
      with decimal_not_Nil show ?thesis by blast
    qed
  next
    case False
    note di = decimal_big [OF False]
    show ?thesis
    proof (cases "j div 10 = 0")
      case True
      from di decimal_small [OF True] "1.prems"
      have "decimal (i div 10) @ [digit (i mod 10)] = [digit j]" by simp
      then have "decimal (i div 10) = []" by simp
      with decimal_not_Nil show ?thesis by blast
    next
      case jbig: False
      from di decimal_big [OF jbig] "1.prems"
      have e: "decimal (i div 10) = decimal (j div 10)" "digit (i mod 10) = digit (j mod 10)"
        by simp_all
      from "1.IH" [OF False e(1)] have d: "i div 10 = j div 10" .
      have "i mod 10 = j mod 10" using e(2) by (intro digit_inj) simp_all
      with d show ?thesis by (metis div_mult_mod_eq)
    qed
  qed
qed

lemma decimal_eq_iff [simp]: "(decimal i = decimal j) = (i = j)"
  using decimal_inj by blast

lemma append_last_neq: "a \<noteq> [] \<Longrightarrow> b \<noteq> [] \<Longrightarrow> last a \<noteq> last b \<Longrightarrow> xs @ a \<noteq> ys @ b"
  by (metis last_appendR)

lemma type_key_other [simp]:
  "xs @ ''].type'' \<noteq> ys @ ''].direction''"
  "xs @ ''].type'' \<noteq> ys @ ''].position''"
  "xs @ ''].type'' \<noteq> ys @ ''].color''"
  "xs @ ''].type'' \<noteq> ys @ ''].intensity''"
  by (rule append_last_neq; simp)+









subsection \<open>The shader program cache\<close>

lemma empty_cache_inv: "cache_inv empty_cache"
  by (simp add: cache_inv_def empty_cache_def)

lemma getOrCompile_inv:
  assumes "cache_inv c" "getOrCompile gpu c vs fs D = (r, c')"
  shows "cache_inv c'"
proof (cases "programs c (vs, fs, D)")
  case (Some h)
  with assms show ?thesis by (simp add: getOrCompile_def)
next
  case None
  show ?thesis
  proof (cases "gpu vs fs D")
    case (Some err)
    with None assms(2) have "c' = c\<lparr>compilations := Suc (compilations c)\<rparr>"
      by (simp add: getOrCompile_def)
    with assms(1) show ?thesis by (simp add: cache_inv_def)
  next
    case gpu_ok: None
    with None assms(2) have c': "c' = c\<lparr>programs := (programs c)((vs, fs, D) \<mapsto> next_handle c),
        next_handle := Suc (next_handle c), compilations := Suc (compilations c)\<rparr>"
      by (simp add: getOrCompile_def)
    from assms(1) have below: "\<And>k h. programs c k = Some h \<Longrightarrow> h < next_handle c"
      and inj: "\<And>k k' h. programs c k = Some h \<Longrightarrow> programs c k' = Some h \<Longrightarrow> k = k'"
      unfolding cache_inv_def by blast+
    show ?thesis
      unfolding cache_inv_def c'
    proof (intro conjI allI impI)
      fix k h
      assume "programs (c\<lparr>programs := (programs c)((vs, fs, D) \<mapsto> next_handle c),
        next_handle := Suc (next_handle c), compilations := Suc (compilations c)\<rparr>) k = Some h"
      then show "h < next_handle (c\<lparr>programs := (programs c)((vs, fs, D) \<mapsto> next_handle c),
        next_handle := Suc (next_handle c), compilations := Suc (compilations c)\<rparr>)"
        using below [of k h] by (simp add: less_Suc_eq split: if_splits)
    next
      fix k k' h
      assume "programs (c\<lparr>programs := (programs c)((vs, fs, D) \<mapsto> next_handle c),
          next_handle := Suc (next_handle c), compilations := Suc (compilations c)\<rparr>) k = Some h
        \<and> programs (c\<lparr>programs := (programs c)((vs, fs, D) \<mapsto> next_handle c),
          next_handle := Suc (next_handle c), compilations := Suc (compilations c)\<rparr>) k' = Some h"
      then show "k = k'"
        using below [of k h] below [of k' h] inj [of k h k']
        by (simp split: if_splits)
    qed
  qed
qed

lemma built_cache_inv: "built gpu c \<Longrightarrow> cache_inv c"
  by (induction rule: built.induct) (auto intro: empty_cache_inv getOrCompile_inv)

lemma getOrCompile_cached:
  assumes "getOrCompile gpu c vs fs D = (Inr h, c')"
  shows "programs c' (vs, fs, D) = Some h"
  using assms by (auto simp: getOrCompile_def split: option.splits)

lemma getOrCompile_keeps:
  assumes "getOrCompile gpu c vs fs D = (r, c')" "programs c k = Some h"
  shows "programs c' k = Some h"
  using assms by (auto simp: getOrCompile_def split: option.splits)

lemma calls_keeps:
  "programs c k = Some h \<Longrightarrow> programs (calls gpu c ks) k = Some h"
proof (induction ks arbitrary: c)
  case Nil
  then show ?case by simp
next
  case (Cons key ks)
  obtain vs fs D where key: "key = (vs, fs, D)" by (cases key)
  obtain r c' where call: "getOrCompile gpu c vs fs D = (r, c')" by (cases "getOrCompile gpu c vs fs D")
  from getOrCompile_keeps [OF call Cons.prems] have "programs c' k = Some h" .
  from Cons.IH [OF this] show ?case by (simp add: key call)
qed

lemma calls_inv:
  "cache_inv c \<Longrightarrow> cache_inv (calls gpu c ks)"
proof (induction ks arbitrary: c)
  case Nil
  then show ?case by simp
next
  case (Cons key ks)
  obtain vs fs D where key: "key = (vs, fs, D)" by (cases key)
  obtain r c' where call: "getOrCompile gpu c vs fs D = (r, c')" by (cases "getOrCompile gpu c vs fs D")
  from getOrCompile_inv [OF Cons.prems call] have "cache_inv c'" .
  from Cons.IH [OF this] show ?case by (simp add: key call)
qed

text \<open>
  C6: take a cache that calls of \<^verbatim>\<open>getOrCompile\<close> have built from the empty one, and any
  calls in between. Two calls on the same sources with different define sets that both
  return a handle return different handles; and a call that returned a handle, when
  repeated, returns the same handle and leaves the cache as it is, its count of
  compilations included.
\<close>

theorem getOrCompile_cache:
  assumes "built gpu c"
  shows "(D1 \<noteq> D2 \<and> getOrCompile gpu c vs fs D1 = (Inr h1, c1)
            \<and> getOrCompile gpu (calls gpu c1 ks) vs fs D2 = (Inr h2, c2) \<longrightarrow> h1 \<noteq> h2)
         \<and> (getOrCompile gpu c vs fs D = (Inr h, c') \<longrightarrow>
              getOrCompile gpu (calls gpu c' ks') vs fs D = (Inr h, calls gpu c' ks'))"
proof -
  have a: "h1 \<noteq> h2"
    if "D1 \<noteq> D2" "getOrCompile gpu c vs fs D1 = (Inr h1, c1)"
      "getOrCompile gpu (calls gpu c1 ks) vs fs D2 = (Inr h2, c2)"
  proof
    assume "h1 = h2"
    have "cache_inv c1"
      using getOrCompile_inv [OF built_cache_inv [OF assms] that(2)] .
    then have "cache_inv (calls gpu c1 ks)" by (rule calls_inv)
    then have i2: "cache_inv c2" using that(3) by (rule getOrCompile_inv)
    have "programs (calls gpu c1 ks) (vs, fs, D1) = Some h1"
      using calls_keeps [OF getOrCompile_cached [OF that(2)]] .
    then have "programs c2 (vs, fs, D1) = Some h1"
      using getOrCompile_keeps [OF that(3)] by blast
    moreover have "programs c2 (vs, fs, D2) = Some h2"
      using getOrCompile_cached [OF that(3)] .
    ultimately have "(vs, fs, D1) = (vs, fs, D2)"
      using i2 \<open>h1 = h2\<close> unfolding cache_inv_def by blast
    with that(1) show False by simp
  qed
  have b: "getOrCompile gpu (calls gpu c' ks') vs fs D = (Inr h, calls gpu c' ks')"
    if "getOrCompile gpu c vs fs D = (Inr h, c')"
    using calls_keeps [OF getOrCompile_cached [OF that], of gpu ks'] by (simp add: getOrCompile_def)
  from a b show ?thesis by blast
qed

theorem getOrCompile_cache_witness:
  "built (\<lambda>v f d. None) empty_cache
   \<and> getOrCompile (\<lambda>v f d. None) empty_cache ''vs'' ''fs'' {|(''LIGHT_COUNT'', 1)|}
       = (Inr 0, \<lparr>programs = [(''vs'', ''fs'', {|(''LIGHT_COUNT'', 1)|}) \<mapsto> 0],
                   next_handle = 1, compilations = 1\<rparr>)
   \<and> calls (\<lambda>v f d. None)
         \<lparr>programs = [(''vs'', ''fs'', {|(''LIGHT_COUNT'', 1)|}) \<mapsto> 0],
           next_handle = 1, compilations = 1\<rparr> [(''vs'', ''fs'', {|(''LIGHT_COUNT'', 2)|})]
       = \<lparr>programs = [(''vs'', ''fs'', {|(''LIGHT_COUNT'', 1)|}) \<mapsto> 0,
                       (''vs'', ''fs'', {|(''LIGHT_COUNT'', 2)|}) \<mapsto> 1],
           next_handle = 2, compilations = 2\<rparr>
   \<and> getOrCompile (\<lambda>v f d. None)
         \<lparr>programs = [(''vs'', ''fs'', {|(''LIGHT_COUNT'', 1)|}) \<mapsto> 0,
                       (''vs'', ''fs'', {|(''LIGHT_COUNT'', 2)|}) \<mapsto> 1],
           next_handle = 2, compilations = 2\<rparr> ''vs'' ''fs'' {|(''LIGHT_COUNT'', 3)|}
       = (Inr 2, \<lparr>programs = [(''vs'', ''fs'', {|(''LIGHT_COUNT'', 1)|}) \<mapsto> 0,
                               (''vs'', ''fs'', {|(''LIGHT_COUNT'', 2)|}) \<mapsto> 1,
                               (''vs'', ''fs'', {|(''LIGHT_COUNT'', 3)|}) \<mapsto> 2],
                   next_handle = 3, compilations = 3\<rparr>)
   \<and> getOrCompile (\<lambda>v f d. None)
         \<lparr>programs = [(''vs'', ''fs'', {|(''LIGHT_COUNT'', 1)|}) \<mapsto> 0,
                       (''vs'', ''fs'', {|(''LIGHT_COUNT'', 2)|}) \<mapsto> 1],
           next_handle = 2, compilations = 2\<rparr> ''vs'' ''fs'' {|(''LIGHT_COUNT'', 1)|}
       = (Inr 0, \<lparr>programs = [(''vs'', ''fs'', {|(''LIGHT_COUNT'', 1)|}) \<mapsto> 0,
                               (''vs'', ''fs'', {|(''LIGHT_COUNT'', 2)|}) \<mapsto> 1],
                   next_handle = 2, compilations = 2\<rparr>)"
proof -
  let ?G = "\<lambda>(v::string) (f::string) (d::DefineSet). None :: ProgramError option"
  let ?D1 = "{|(''LIGHT_COUNT'', 1::int)|}"
  let ?D2 = "{|(''LIGHT_COUNT'', 2::int)|}"
  let ?D3 = "{|(''LIGHT_COUNT'', 3::int)|}"
  let ?C1 = "\<lparr>programs = [(''vs'', ''fs'', ?D1) \<mapsto> (0::nat)], next_handle = 1, compilations = 1\<rparr>"
  let ?C2 = "\<lparr>programs = [(''vs'', ''fs'', ?D1) \<mapsto> (0::nat), (''vs'', ''fs'', ?D2) \<mapsto> 1],
              next_handle = 2, compilations = 2\<rparr>"
  let ?C3 = "\<lparr>programs = [(''vs'', ''fs'', ?D1) \<mapsto> (0::nat), (''vs'', ''fs'', ?D2) \<mapsto> 1,
                           (''vs'', ''fs'', ?D3) \<mapsto> 2],
              next_handle = 3, compilations = 3\<rparr>"
  have start: "built ?G empty_cache" by (rule built_empty)
  have first: "getOrCompile ?G empty_cache ''vs'' ''fs'' ?D1 = (Inr 0, ?C1)"
    by (simp add: getOrCompile_def empty_cache_def)
  have between: "calls ?G ?C1 [(''vs'', ''fs'', ?D2)] = ?C2"
    by (simp add: getOrCompile_def)
  have third: "getOrCompile ?G ?C2 ''vs'' ''fs'' ?D3 = (Inr 2, ?C3)"
    by (simp add: getOrCompile_def)
  from getOrCompile_cache [OF start, of ?D1 ?D3 "''vs''" "''fs''" 0 ?C1 "[(''vs'', ''fs'', ?D2)]" 2 ?C3
      ?D1 0 ?C1 "[(''vs'', ''fs'', ?D2)]"] first between third
  have "getOrCompile ?G ?C2 ''vs'' ''fs'' ?D1 = (Inr 0, ?C2)"
    by simp
  with start first between third show ?thesis by simp
qed

subsection \<open>The sRGB round trip\<close>

lemma powr_ge_self:
  fixes b r :: real
  assumes "0 \<le> b" "b \<le> 1" "r \<le> 1"
  shows "b \<le> b powr r"
proof -
  have "b powr 1 \<le> b powr r" using assms by (intro powr_mono') simp_all
  with assms(1) show ?thesis by simp
qed

lemma powr_le_self:
  fixes b r :: real
  assumes "0 \<le> b" "b \<le> 1" "1 \<le> r"
  shows "b powr r \<le> b"
proof -
  have "b powr r \<le> b powr 1" using assms by (intro powr_mono') simp_all
  with assms(1) show ?thesis by simp
qed

text \<open>
  The product of the exponents \<open>0.41666\<close> and \<open>2.4\<close> is \<open>1 - 1/62500\<close>: a round trip
  raises to that power, which moves a number of \<open>(0, 1]\<close> by at most \<open>1/62499\<close>.
\<close>

lemma powr_near_one_upper:
  fixes b d :: real
  assumes "0 < b" "b \<le> 1" "0 < d" "d < 1"
  shows "b powr (1 - d) \<le> b + d / (1 - d)"
proof -
  define t where "t = - ln b"
  define E where "E = exp ((1 - d) * t)"
  have t0: "0 \<le> t" using assms by (simp add: t_def)
  have E0: "0 < E" by (simp add: E_def)
  have E1: "(1 - d) * t \<le> E"
    using exp_ge_add_one_self [of "(1 - d) * t"] unfolding E_def by linarith
  have bp: "b powr (1 - d) = 1 / E"
    using assms(1) by (simp add: powr_def E_def t_def exp_minus divide_inverse)
  have "ln b = - ((1 - d) * t) + - (d * t)"
    by (simp add: t_def algebra_simps)
  then have "exp (ln b) = exp (- ((1 - d) * t)) * exp (- (d * t))"
    by (simp only: exp_add)
  then have b: "b = 1 / E * exp (- (d * t))"
    using assms(1) by (simp add: exp_minus E_def divide_inverse)
  have e: "1 - d * t \<le> exp (- (d * t))"
    using exp_ge_add_one_self [of "- (d * t)"] by linarith
  have "b powr (1 - d) - b = 1 / E * (1 - exp (- (d * t)))"
    by (subst b) (simp add: bp algebra_simps)
  also have "\<dots> \<le> 1 / E * (d * t)"
    using e E0 by (intro mult_left_mono) simp_all
  also have "\<dots> = d * (t / E)"
    by simp
  also have "\<dots> \<le> d * (1 / (1 - d))"
  proof (intro mult_left_mono)
    show "t / E \<le> 1 / (1 - d)"
      using E1 E0 assms by (simp add: field_simps)
  qed (use assms in simp)
  finally show ?thesis by simp
qed

lemma powr_24_shift:
  fixes u e :: real
  assumes "0 < u" "u \<le> 1" "0 \<le> e" "e \<le> u"
  shows "u powr 2.4 - 3 * e \<le> (u - e) powr 2.4"
proof -
  define h where "h = e / u"
  have h: "0 \<le> h" "h \<le> 1" using assms by (simp_all add: h_def)
  have ue: "u - e = u * (1 - h)" using assms by (simp add: h_def field_simps)
  have "1 - 3 * h \<le> (1 - h) ^ 3"
    using Bernoulli_inequality [of "- h" 3] h by simp
  also have "\<dots> = (1 - h) powr 3"
    using h by (simp add: powr_numeral)
  also have "\<dots> \<le> (1 - h) powr 2.4"
    using h by (intro powr_mono') simp_all
  finally have b: "1 - 3 * h \<le> (1 - h) powr 2.4" .
  have uq: "u powr 2.4 \<le> u" using assms by (intro powr_le_self) simp_all
  have "u powr 2.4 * h \<le> u * h" using uq h by (intro mult_right_mono) simp_all
  also have "\<dots> = e" using assms by (simp add: h_def)
  finally have he: "u powr 2.4 * h \<le> e" .
  have "u powr 2.4 - 3 * e \<le> u powr 2.4 - 3 * (u powr 2.4 * h)" using he by simp
  also have "\<dots> = u powr 2.4 * (1 - 3 * h)" by (simp add: algebra_simps)
  also have "\<dots> \<le> u powr 2.4 * (1 - h) powr 2.4"
    using b by (intro mult_left_mono) simp_all
  also have "\<dots> = (u - e) powr 2.4"
    using assms h by (simp add: ue powr_mult)
  finally show ?thesis .
qed


text \<open>A power with a rational exponent is compared through integer powers.\<close>

lemma powr_frac_lower:
  fixes c y :: real
  assumes "0 < y" "0 < n" "c ^ n \<le> y ^ m"
  shows "c \<le> y powr (real m / real n)"
proof (rule ccontr)
  assume "\<not> c \<le> y powr (real m / real n)"
  then have lt: "y powr (real m / real n) < c" by simp
  have "(y powr (real m / real n)) ^ n = y powr (real m)"
    using assms(1,2) by (simp add: powr_power)
  also have "\<dots> = y ^ m" using assms(1) by (simp add: powr_realpow)
  finally have e: "(y powr (real m / real n)) ^ n = y ^ m" .
  have "(y powr (real m / real n)) ^ n < c ^ n"
    using lt assms(2) by (intro power_strict_mono) simp_all
  with e assms(3) show False by simp
qed

lemma powr_frac_upper:
  fixes c y :: real
  assumes "0 < y" "0 < n" "0 \<le> c" "y ^ m \<le> c ^ n"
  shows "y powr (real m / real n) \<le> c"
proof (rule ccontr)
  assume "\<not> y powr (real m / real n) \<le> c"
  then have lt: "c < y powr (real m / real n)" by simp
  have "(y powr (real m / real n)) ^ n = y powr (real m)"
    using assms(1,2) by (simp add: powr_power)
  also have "\<dots> = y ^ m" using assms(1) by (simp add: powr_realpow)
  finally have e: "(y powr (real m / real n)) ^ n = y ^ m" .
  have "c ^ n < (y powr (real m / real n)) ^ n"
    using lt assms(2,3) by (intro power_strict_mono) simp_all
  with e assms(4) show False by simp
qed

text \<open>The numbers of the two boundaries.\<close>

lemma boundary_lower: "(0.09045::real) \<le> 0.0031308 powr (5 / 12)"
proof -
  have "(0.09045::real) ^ 12 \<le> 0.0031308 ^ 5" by (simp add: power_divide)
  then have "(0.09045::real) \<le> 0.0031308 powr (real 5 / real 12)"
    by (intro powr_frac_lower) simp_all
  then show ?thesis by simp
qed

lemma boundary_upper: "(0.0031309::real) powr (5 / 12) \<le> 0.0905"
proof -
  have "(0.0031309::real) ^ 5 \<le> 0.0905 ^ 12" by (simp add: power_divide)
  then have "(0.0031309::real) powr (real 5 / real 12) \<le> 0.0905"
    by (intro powr_frac_upper) simp_all
  then show ?thesis by simp
qed

lemma boundary_above: "(0.09048::real) \<le> 0.00314 powr (5 / 12)"
proof -
  have "(0.09048::real) ^ 12 \<le> 0.00314 ^ 5" by (simp add: power_divide)
  then have "(0.09048::real) \<le> 0.00314 powr (real 5 / real 12)"
    by (intro powr_frac_lower) simp_all
  then show ?thesis by simp
qed

lemma boundary_lin_lower: "(0.00313::real) \<le> 0.090473 powr 2.4"
proof -
  have "(0.00313::real) ^ 5 \<le> 0.090473 ^ 12" by (simp add: power_divide)
  then have "(0.00313::real) \<le> 0.090473 powr (real 12 / real 5)"
    by (intro powr_frac_lower) simp_all
  then show ?thesis by simp
qed

lemma boundary_lin_above: "(0.0031309::real) \<le> 0.0905 powr 2.4"
proof -
  have "(0.0031309::real) ^ 5 \<le> 0.0905 ^ 12" by (simp add: power_divide)
  then have "(0.0031309::real) \<le> 0.0905 powr (real 12 / real 5)"
    by (intro powr_frac_lower) simp_all
  then show ?thesis by simp
qed


lemma LinearTosRGB_channel_piecewise:
  "0 \<le> c \<Longrightarrow> LinearTosRGB_channel c =
     Some (if c \<le> 0.0031308 then c * 12.92 else c powr 0.41666 * 1.055 - 0.055)"
  by (simp add: LinearTosRGB_channel_def pow_def mix_def)

lemma encode_power_above:
  fixes x :: real
  assumes "0.0031308 < x" "x \<le> 1"
  shows "0.09045 \<le> x powr 0.41666"
proof -
  have "0.0031308 powr (5 / 12) \<le> x powr (5 / 12)"
    using assms by (intro powr_mono2) simp_all
  also have "\<dots> \<le> x powr 0.41666"
    using assms by (intro powr_mono') simp_all
  finally show ?thesis using boundary_lower by linarith
qed

lemma encode_then_linearize:
  fixes x :: real
  assumes "0 \<le> x" "x \<le> 1"
  shows "\<exists>s y. LinearTosRGB_channel x = Some s \<and> sRGBToLinear_channel s = Some y
           \<and> \<bar>y - x\<bar> \<le> 1 / 10000"
proof (cases "x \<le> 0.0031308")
  case True
  define s where "s = x * 12.92"
  have s: "0 \<le> s" "s \<le> 0.04045" using assms True by (simp_all add: s_def)
  have 1: "LinearTosRGB_channel x = Some s"
    using assms True by (simp add: LinearTosRGB_channel_piecewise s_def)
  have 2: "sRGBToLinear_channel s = Some (s * 0.0773993808)"
    using s by (simp add: sRGBToLinear_channel_piecewise)
  have "\<bar>s * 0.0773993808 - x\<bar> \<le> 1 / 10000"
    using assms True by (simp add: s_def abs_le_iff)
  with 1 2 show ?thesis by blast
next
  case False
  then have x: "0.0031308 < x" by simp
  define u where "u = x powr 0.41666"
  define s where "s = u * 1.055 - 0.055"
  have 1: "LinearTosRGB_channel x = Some s"
    using assms False by (simp add: LinearTosRGB_channel_piecewise s_def u_def)
  have u_lo: "0.09045 \<le> u" unfolding u_def using x assms(2) by (rule encode_power_above)
  have u_hi: "u \<le> 1" unfolding u_def using assms x by (intro powr_le1) simp_all
  have s0: "0 \<le> s" using u_lo by (simp add: s_def)
  show ?thesis
  proof (cases "s \<le> 0.04045")
    case True
    have 2: "sRGBToLinear_channel s = Some (s * 0.0773993808)"
      using s0 True by (simp add: sRGBToLinear_channel_piecewise)
    have x_hi: "x \<le> 0.00314"
    proof (rule ccontr)
      assume "\<not> x \<le> 0.00314"
      then have "0.00314 powr (5 / 12) \<le> x powr (5 / 12)"
        by (intro powr_mono2) simp_all
      also have "\<dots> \<le> x powr 0.41666"
        using assms by (intro powr_mono') simp_all
      finally have "0.09048 \<le> u" using boundary_above unfolding u_def by linarith
      with True show False by (simp add: s_def)
    qed
    have "s * 0.0773993808 - x \<le> 1 / 10000" "x - s * 0.0773993808 \<le> 1 / 10000"
      using x x_hi u_lo True by (simp_all add: s_def field_simps)
    then have "\<bar>s * 0.0773993808 - x\<bar> \<le> 1 / 10000"
      by linarith
    with 1 2 show ?thesis by blast
  next
    case False
    define b where "b = s * 0.9478672986 + 0.0521327014"
    define e :: real where "e = 0.000000000023"
    have 2: "sRGBToLinear_channel s = Some (b powr 2.4)"
      using s0 False by (simp add: sRGBToLinear_channel_piecewise b_def)
    have b: "b = u - e * (1 - u)" by (simp add: b_def s_def e_def field_simps)
    have e0: "0 \<le> e" by (simp add: e_def)
    have "0 \<le> e * (1 - u)"
      using u_hi e0 by simp
    moreover have "e * (1 - u) \<le> e * 1"
      using u_lo e0 by (intro mult_left_mono) simp_all
    ultimately have b_hi: "b \<le> u" and b_lo: "u - e \<le> b" by (simp_all add: b)
    have ue: "0 \<le> u - e" using u_lo by (simp add: e_def field_simps)
    have uq: "u powr 2.4 = x powr (1 - 1 / 62500)"
      by (simp add: u_def powr_powr)
    have "b powr 2.4 \<le> u powr 2.4"
      using b_hi b_lo ue by (intro powr_mono2) simp_all
    also have "\<dots> \<le> x + (1 / 62500) / (1 - 1 / 62500)"
      unfolding uq using x assms by (intro powr_near_one_upper) simp_all
    finally have hi: "b powr 2.4 \<le> x + 1 / 62499" by simp
    have "x \<le> x powr (1 - 1 / 62500)"
      using assms by (intro powr_ge_self) simp_all
    also have "\<dots> - 3 * e \<le> (u - e) powr 2.4"
      unfolding uq [symmetric] using u_lo u_hi by (intro powr_24_shift) (simp_all add: e_def)
    also have "(u - e) powr 2.4 \<le> b powr 2.4"
      using b_lo ue by (intro powr_mono2) simp_all
    finally have lo: "x - 3 * e \<le> b powr 2.4" by simp
    have "3 * e \<le> 1 / 10000" by (simp add: e_def)
    with hi lo have "\<bar>b powr 2.4 - x\<bar> \<le> 1 / 10000"
      by linarith
    with 1 2 show ?thesis by blast
  qed
qed


lemma linearize_then_encode:
  fixes x :: real
  assumes "0 \<le> x" "x \<le> 1"
  shows "\<exists>l y. sRGBToLinear_channel x = Some l \<and> LinearTosRGB_channel l = Some y
           \<and> \<bar>y - x\<bar> \<le> 1 / 10000"
proof (cases "x \<le> 0.04045")
  case True
  define l where "l = x * 0.0773993808"
  have l0: "0 \<le> l" using assms by (simp add: l_def)
  have 1: "sRGBToLinear_channel x = Some l"
    using assms True by (simp add: sRGBToLinear_channel_piecewise l_def)
  show ?thesis
  proof (cases "l \<le> 0.0031308")
    case True
    have 2: "LinearTosRGB_channel l = Some (l * 12.92)"
      using l0 True by (simp add: LinearTosRGB_channel_piecewise)
    have "l * 12.92 - x \<le> 1 / 10000" "x - l * 12.92 \<le> 1 / 10000"
      using assms by (simp_all add: l_def field_simps)
    then have "\<bar>l * 12.92 - x\<bar> \<le> 1 / 10000" by linarith
    with 1 2 show ?thesis by blast
  next
    case False
    then have l_lo: "0.0031308 < l" by simp
    have l_hi: "l \<le> 0.0031309" using True by (simp add: l_def field_simps)
    define v where "v = l powr (5 / 12)"
    define u where "u = l powr 0.41666"
    have 2: "LinearTosRGB_channel l = Some (u * 1.055 - 0.055)"
      using l0 False by (simp add: LinearTosRGB_channel_piecewise u_def)
    have u_lo: "0.09045 \<le> u"
      unfolding u_def using l_lo l_hi by (intro encode_power_above) simp_all
    have v0: "0 < v" using l_lo by (simp add: v_def)
    have "v \<le> 0.0031309 powr (5 / 12)"
      unfolding v_def using l_lo l_hi by (intro powr_mono2) simp_all
    with boundary_upper have v_hi: "v \<le> 0.0905" by linarith
    have "u = v powr (1 - 1 / 62500)"
      by (simp add: u_def v_def powr_powr)
    also have "\<dots> \<le> v + (1 / 62500) / (1 - 1 / 62500)"
      using v0 v_hi by (intro powr_near_one_upper) simp_all
    finally have u_hi: "u \<le> 0.0905 + 1 / 62499" using v_hi by simp
    have x_lo: "0.0404499 \<le> x" using l_lo by (simp add: l_def field_simps)
    have "(u * 1.055 - 0.055) - x \<le> 1 / 10000" "x - (u * 1.055 - 0.055) \<le> 1 / 10000"
      using u_lo u_hi x_lo True by (simp_all add: field_simps)
    then have "\<bar>(u * 1.055 - 0.055) - x\<bar> \<le> 1 / 10000" by linarith
    with 1 2 show ?thesis by blast
  qed
next
  case False
  then have x: "0.04045 < x" by simp
  define b where "b = x * 0.9478672986 + 0.0521327014"
  define l where "l = b powr 2.4"
  have b_lo: "0.090473 \<le> b" using x by (simp add: b_def field_simps)
  have b_hi: "b \<le> 1" using assms by (simp add: b_def field_simps)
  have l0: "0 \<le> l" by (simp add: l_def)
  have 1: "sRGBToLinear_channel x = Some l"
    using assms False by (simp add: sRGBToLinear_channel_piecewise l_def b_def)
  show ?thesis
  proof (cases "l \<le> 0.0031308")
    case True
    have 2: "LinearTosRGB_channel l = Some (l * 12.92)"
      using l0 True by (simp add: LinearTosRGB_channel_piecewise)
    have "0.090473 powr 2.4 \<le> l"
      unfolding l_def using b_lo by (intro powr_mono2) simp_all
    with boundary_lin_lower have l_lo: "0.00313 \<le> l" by linarith
    have "b \<le> 0.0905"
    proof (rule ccontr)
      assume "\<not> b \<le> 0.0905"
      then have "0.0905 powr 2.4 \<le> l"
        unfolding l_def by (intro powr_mono2) simp_all
      with boundary_lin_above have "0.0031309 \<le> l" by linarith
      with True show False by simp
    qed
    then have x_hi: "x \<le> 0.0404776" by (simp add: b_def field_simps)
    have "l * 12.92 - x \<le> 1 / 10000" "x - l * 12.92 \<le> 1 / 10000"
      using x x_hi l_lo True by (simp_all add: field_simps)
    then have "\<bar>l * 12.92 - x\<bar> \<le> 1 / 10000" by linarith
    with 1 2 show ?thesis by blast
  next
    case False
    define u where "u = l powr 0.41666"
    have 2: "LinearTosRGB_channel l = Some (u * 1.055 - 0.055)"
      using l0 False by (simp add: LinearTosRGB_channel_piecewise u_def)
    have u: "u = b powr (1 - 1 / 62500)"
      by (simp add: u_def l_def powr_powr)
    have u_lo: "b \<le> u"
      unfolding u using b_lo b_hi by (intro powr_ge_self) simp_all
    have "u \<le> b + (1 / 62500) / (1 - 1 / 62500)"
      unfolding u using b_lo b_hi by (intro powr_near_one_upper) simp_all
    then have u_hi: "u \<le> b + 1 / 62499" by simp
    have "(u * 1.055 - 0.055) - x \<le> 1 / 10000" "x - (u * 1.055 - 0.055) \<le> 1 / 10000"
      using u_lo u_hi assms x by (simp_all add: b_def field_simps)
    then have "\<bar>(u * 1.055 - 0.055) - x\<bar> \<le> 1 / 10000" by linarith
    with 1 2 show ?thesis by blast
  qed
qed

text \<open>
  C7: for a colour with channels in \<open>[0, 1]\<close>, \<^verbatim>\<open>LinearTosRGB\<close> followed by
  \<^verbatim>\<open>sRGBToLinear\<close>, and \<^verbatim>\<open>sRGBToLinear\<close> followed by \<^verbatim>\<open>LinearTosRGB\<close>, both have a
  value, return each channel within \<open>10\<^sup>-\<^sup>4\<close> of what it was, and return alpha as it was.
  The boundaries \<open>0.0031308\<close> and \<open>0.04045\<close> are among the channels covered.
\<close>

theorem sRGB_round_trip:
  assumes "0 \<le> r" "r \<le> 1" "0 \<le> g" "g \<le> 1" "0 \<le> b" "b \<le> 1"
  shows "(\<exists>s y. LinearTosRGB (Vec4 r g b a) = Some s \<and> sRGBToLinear s = Some y
            \<and> \<bar>v4r y - r\<bar> \<le> 1 / 10000 \<and> \<bar>v4g y - g\<bar> \<le> 1 / 10000
            \<and> \<bar>v4b y - b\<bar> \<le> 1 / 10000 \<and> v4a y = a)
         \<and> (\<exists>l y. sRGBToLinear (Vec4 r g b a) = Some l \<and> LinearTosRGB l = Some y
            \<and> \<bar>v4r y - r\<bar> \<le> 1 / 10000 \<and> \<bar>v4g y - g\<bar> \<le> 1 / 10000
            \<and> \<bar>v4b y - b\<bar> \<le> 1 / 10000 \<and> v4a y = a)"
proof -
  obtain sr yr where r1: "LinearTosRGB_channel r = Some sr" "sRGBToLinear_channel sr = Some yr"
      "\<bar>yr - r\<bar> \<le> 1 / 10000"
    using encode_then_linearize [OF assms(1,2)] by blast
  obtain sg yg where g1: "LinearTosRGB_channel g = Some sg" "sRGBToLinear_channel sg = Some yg"
      "\<bar>yg - g\<bar> \<le> 1 / 10000"
    using encode_then_linearize [OF assms(3,4)] by blast
  obtain sb yb where b1: "LinearTosRGB_channel b = Some sb" "sRGBToLinear_channel sb = Some yb"
      "\<bar>yb - b\<bar> \<le> 1 / 10000"
    using encode_then_linearize [OF assms(5,6)] by blast
  obtain lr zr where r2: "sRGBToLinear_channel r = Some lr" "LinearTosRGB_channel lr = Some zr"
      "\<bar>zr - r\<bar> \<le> 1 / 10000"
    using linearize_then_encode [OF assms(1,2)] by blast
  obtain lg zg where g2: "sRGBToLinear_channel g = Some lg" "LinearTosRGB_channel lg = Some zg"
      "\<bar>zg - g\<bar> \<le> 1 / 10000"
    using linearize_then_encode [OF assms(3,4)] by blast
  obtain lb zb where b2: "sRGBToLinear_channel b = Some lb" "LinearTosRGB_channel lb = Some zb"
      "\<bar>zb - b\<bar> \<le> 1 / 10000"
    using linearize_then_encode [OF assms(5,6)] by blast
  have "LinearTosRGB (Vec4 r g b a) = Some (Vec4 sr sg sb a)"
    by (simp add: LinearTosRGB_def r1 g1 b1)
  moreover have "sRGBToLinear (Vec4 sr sg sb a) = Some (Vec4 yr yg yb a)"
    by (simp add: sRGBToLinear_def r1 g1 b1)
  moreover have "sRGBToLinear (Vec4 r g b a) = Some (Vec4 lr lg lb a)"
    by (simp add: sRGBToLinear_def r2 g2 b2)
  moreover have "LinearTosRGB (Vec4 lr lg lb a) = Some (Vec4 zr zg zb a)"
    by (simp add: LinearTosRGB_def r2 g2 b2)
  ultimately show ?thesis
    using r1(3) g1(3) b1(3) r2(3) g2(3) b2(3) by auto
qed

theorem sRGB_round_trip_witness:
  "(\<exists>s y. LinearTosRGB (Vec4 0.0031308 0.04045 1 1) = Some s \<and> sRGBToLinear s = Some y
       \<and> \<bar>v4r y - 0.0031308\<bar> \<le> 1 / 10000 \<and> \<bar>v4g y - 0.04045\<bar> \<le> 1 / 10000
       \<and> \<bar>v4b y - 1\<bar> \<le> 1 / 10000 \<and> v4a y = 1)
   \<and> (\<exists>l y. sRGBToLinear (Vec4 0.0031308 0.04045 1 1) = Some l \<and> LinearTosRGB l = Some y
       \<and> \<bar>v4r y - 0.0031308\<bar> \<le> 1 / 10000 \<and> \<bar>v4g y - 0.04045\<bar> \<le> 1 / 10000
       \<and> \<bar>v4b y - 1\<bar> \<le> 1 / 10000 \<and> v4a y = 1)"
  by (rule sRGB_round_trip) simp_all

end
